theory Spec2Isabelle
  imports Main "HOL-Library.AList" "HOL-Library.Sublist" "HOL-Library.Word"
begin

unbundle bit_operations_syntax

section \<open>Values of the writer package\<close>

text \<open>
  A \<open>float64\<close> is modelled by its IEEE-754 binary64 bit pattern: the writer only ever
  copies values and substitutes \<open>math.NaN()\<close>, it performs no floating-point arithmetic.
  \<open>math.NaN()\<close> is \<open>Float64frombits(0x7FF8000000000001)\<close>; a bit pattern is a NaN when
  its exponent bits are all set and its fraction is not zero.
\<close>

type_synonym float64 = "64 word"

definition math_NaN :: float64 where
  "math_NaN = 0x7FF8000000000001"

definition math_IsNaN :: "float64 \<Rightarrow> bool" where
  "math_IsNaN f \<longleftrightarrow>
     f AND 0x7FF0000000000000 = 0x7FF0000000000000 \<and> f AND 0x000FFFFFFFFFFFFF \<noteq> 0"

text \<open>
  A \<open>time.Time\<close> is an instant that the code only copies; a \<open>time.Duration\<close> is a signed
  64-bit count of nanoseconds.
\<close>

type_synonym Time = int

type_synonym Duration = "64 word"

subsection \<open>Errors\<close>

text \<open>
  \<open>promremote.WriteError\<close> is an error that also carries the HTTP status code of the
  response; \<open>Message\<close> is what its \<open>Error()\<close> method returns.
\<close>

record WriteError =
  StatusCode :: int
  Message :: string

text \<open>
  The error values that flow through the package: errors made by the libraries it calls,
  \<open>fmt.Errorf\<close> without and with a wrapped error (\<open>%w\<close> at the end of the format), a
  \<open>WriteError\<close> returned as a plain error, and the run-time panic of an assignment to an
  entry of a nil map (which unwinds through every caller like an error that is returned
  at once).
\<close>

datatype error =
    LibError string
  | Errorf string
  | Wrapf string error
  | RemoteError WriteError
  | Panic string

fun Error :: "error \<Rightarrow> string" where
  "Error (LibError m) = m"
| "Error (Errorf m) = m"
| "Error (Wrapf msg e) = msg @ Error e"
| "Error (RemoteError we) = Message we"
| "Error (Panic m) = m"

subsection \<open>Maps as references into a store\<close>

text \<open>
  A Go map is a reference: two variables can name the same map, and a write through one
  is seen through the other. The store holds the entries of every map allocated so far;
  the address of a map is its index, so allocation appends to the store and the next
  fresh address is the length of the store. A map value is \<open>nil\<close> (\<open>None\<close>) or the
  address of its entries. The entries are kept as an association list, in the order in
  which a \<open>range\<close> statement visits them.
\<close>

type_synonym addr = nat

type_synonym entries = "(string \<times> string) list"

type_synonym heap = "entries list"

type_synonym mapref = "addr option"

definition deref :: "heap \<Rightarrow> mapref \<Rightarrow> entries" where
  "deref h m = (case m of None \<Rightarrow> [] | Some a \<Rightarrow> h ! a)"

definition make_Labels :: "heap \<Rightarrow> mapref \<times> heap" where
  "make_Labels h = (Some (length h), h @ [[]])"

text \<open>The builtin \<open>delete(m, k)\<close>: nothing happens on a nil map.\<close>

definition map_delete :: "mapref \<Rightarrow> string \<Rightarrow> heap \<Rightarrow> heap" where
  "map_delete m k h = (case m of None \<Rightarrow> h | Some a \<Rightarrow> h[a := AList.delete k (h ! a)])"

text \<open>The assignment \<open>m[k] = v\<close>: it panics on a nil map.\<close>

definition map_assign :: "mapref \<Rightarrow> string \<Rightarrow> string \<Rightarrow> heap \<Rightarrow> error + heap" where
  "map_assign m k v h =
     (case m of
        None \<Rightarrow> Inl (Panic ''assignment to entry in nil map'')
      | Some a \<Rightarrow> Inr (h[a := AList.update k v (h ! a)]))"

subsection \<open>Points and the input collection\<close>

record Metric =
  T :: Time
  V :: float64

record Point =
  Name :: string
  Labels :: mapref
  Metric :: Metric

text \<open>
  A \<open>numeric.MetricRef\<close> of the input collection, seen through the two methods the
  writer calls on it: \<open>NullableFloat64Value\<close> returns a pointer to the value (or nil),
  whether the series is empty, and an error; \<open>GetLabels\<close> returns the label map of the
  series (or nil).
\<close>

record MetricRef =
  ref_fp :: "float64 option"
  ref_empty :: bool
  ref_err :: "error option"
  ref_labels :: mapref

definition NullableFloat64Value :: "MetricRef \<Rightarrow> float64 option \<times> bool \<times> error option" where
  "NullableFloat64Value ref = (ref_fp ref, ref_empty ref, ref_err ref)"

definition GetLabels :: "MetricRef \<Rightarrow> mapref" where
  "GetLabels ref = ref_labels ref"

record Collection =
  Refs :: "MetricRef list"

subsection \<open>The libraries the writer calls\<close>

text \<open>
  The collection reader of the dataplane library is not part of the package; its two
  functions are parameters of the model. \<open>CopyOfNilIsNil\<close> says what
  \<open>data.Labels.Copy\<close> returns for a nil receiver: nil, or a new empty map.
\<close>

record ('f, 'cr) library =
  CollectionReaderFromFrames :: "'f \<Rightarrow> error + 'cr"
  GetCollection :: "'cr \<Rightarrow> bool \<Rightarrow> error + Collection"
  CopyOfNilIsNil :: bool

text \<open>
  Modelled from the spec: \<open>data.Labels.Copy\<close> of the plugin SDK, whose source is not
  part of the package.
  The spec calls it a defensive copy that never aliases the caller's labels: a new map
  is allocated and receives the entries of the receiver.
\<close>

definition Copy :: "bool \<Rightarrow> mapref \<Rightarrow> heap \<Rightarrow> mapref \<times> heap" where
  "Copy nil_is_nil l h =
     (if l = None \<and> nil_is_nil then (None, h)
      else (Some (length h), h @ [deref h l]))"

section \<open>PointsFromFrames\<close>

text \<open>The loop \<open>for k, v := range extraLabels { labels[k] = v }\<close>.\<close>

fun range_assign :: "mapref \<Rightarrow> entries \<Rightarrow> heap \<Rightarrow> error + heap" where
  "range_assign labels [] h = Inr h"
| "range_assign labels ((k, v) # kvs) h =
     (case map_assign labels k v h of
        Inl e \<Rightarrow> Inl e
      | Inr h' \<Rightarrow> range_assign labels kvs h')"

text \<open>The value of a series: NaN unless the series is not empty and its value is not nil.\<close>

definition float_of_ref :: "MetricRef \<Rightarrow> float64" where
  "float_of_ref ref =
     (let f = math_NaN in
      case NullableFloat64Value ref of
        (fp, is_empty, _) \<Rightarrow>
          (case fp of None \<Rightarrow> f | Some x \<Rightarrow> if \<not> is_empty then x else f))"

text \<open>The body of the loop over \<open>col.Refs\<close>: the point of one series.\<close>

definition point_of_ref ::
  "bool \<Rightarrow> string \<Rightarrow> Time \<Rightarrow> mapref \<Rightarrow> MetricRef \<Rightarrow> heap \<Rightarrow> (error + Point) \<times> heap" where
  "point_of_ref nil_is_nil name t extraLabels ref h =
     (let f = float_of_ref ref;
          metric = \<lparr>T = t, V = f\<rparr>;
          (copied, h1) = Copy nil_is_nil (GetLabels ref) h;
          (labels, h2) = (if copied = None then make_Labels h1 else (copied, h1));
          h3 = map_delete labels ''__name__'' h2
      in case range_assign labels (deref h3 extraLabels) h3 of
           Inl e \<Rightarrow> (Inl e, h3)
         | Inr h4 \<Rightarrow> (Inr \<lparr>Name = name, Labels = labels, Metric = metric\<rparr>, h4))"

fun points_loop ::
  "bool \<Rightarrow> string \<Rightarrow> Time \<Rightarrow> mapref \<Rightarrow> MetricRef list \<Rightarrow> Point list \<Rightarrow> heap
     \<Rightarrow> (error + Point list) \<times> heap" where
  "points_loop nil_is_nil name t extraLabels [] points h = (Inr points, h)"
| "points_loop nil_is_nil name t extraLabels (ref # refs) points h =
     (case point_of_ref nil_is_nil name t extraLabels ref h of
        (Inl e, h') \<Rightarrow> (Inl e, h')
      | (Inr p, h') \<Rightarrow> points_loop nil_is_nil name t extraLabels refs (points @ [p]) h')"

definition PointsFromFrames ::
  "('f, 'cr) library \<Rightarrow> string \<Rightarrow> Time \<Rightarrow> 'f \<Rightarrow> mapref \<Rightarrow> heap \<Rightarrow> (error + Point list) \<times> heap" where
  "PointsFromFrames lib name t frames extraLabels h =
     (case CollectionReaderFromFrames lib frames of
        Inl err \<Rightarrow> (Inl err, h)
      | Inr cr \<Rightarrow>
          (case GetCollection lib cr False of
             Inl err \<Rightarrow> (Inl err, h)
           | Inr col \<Rightarrow> points_loop (CopyOfNilIsNil lib) name t extraLabels (Refs col) [] h))"

section \<open>Write\<close>

text \<open>The wire types of the remote-write client library.\<close>

record Label =
  LabelName :: string
  LabelValue :: string

record Datapoint =
  Timestamp :: Time
  Value :: float64

record TimeSeries =
  SeriesLabels :: "Label list"
  Datapoint :: Datapoint

text \<open>
  A \<open>promremote.Client\<close> is modelled by its method \<open>WriteTimeSeries\<close>: what the remote
  end answers to a batch of series, nil or a \<open>WriteError\<close>. The result value that the
  method also returns is discarded by the writer.
\<close>

type_synonym Client = "TimeSeries list \<Rightarrow> WriteError option"

record PrometheusWriter =
  client :: Client

text \<open>
  \<open>strings.Contains(s, substr)\<close>: \<open>substr\<close> starts at some position of \<open>s\<close>.
\<close>

fun strings_Contains :: "string \<Rightarrow> string \<Rightarrow> bool" where
  "strings_Contains [] substr = (substr = [])"
| "strings_Contains (c # s) substr = (prefix substr (c # s) \<or> strings_Contains s substr)"

definition MimirDuplicateTimestampError :: string where
  "MimirDuplicateTimestampError = ''err-mimir-sample-duplicate-timestamp''"

definition PrometheusDuplicateTimestampError :: string where
  "PrometheusDuplicateTimestampError = ''duplicate sample for timestamp''"

definition DuplicateTimestampErrors :: "string list" where
  "DuplicateTimestampErrors = [MimirDuplicateTimestampError, PrometheusDuplicateTimestampError]"

text \<open>
  The loop of \<open>checkWriteError\<close> over the signatures: true when it returns nil from
  inside the loop.
\<close>

fun signature_loop :: "string \<Rightarrow> string list \<Rightarrow> bool" where
  "signature_loop msg [] = False"
| "signature_loop msg (e # es) = (if strings_Contains msg e then True else signature_loop msg es)"

definition checkWriteError :: "WriteError option \<Rightarrow> error option" where
  "checkWriteError writeErr =
     (case writeErr of
        None \<Rightarrow> None
      | Some we \<Rightarrow>
          if StatusCode we = 400 \<and> signature_loop (Message we) DuplicateTimestampErrors
          then None
          else Some (RemoteError we))"

definition promremoteLabelsFromPoint :: "heap \<Rightarrow> Point \<Rightarrow> Label list" where
  "promremoteLabelsFromPoint h point =
     fold (\<lambda>(k, v) labels. labels @ [\<lparr>LabelName = k, LabelValue = v\<rparr>])
       (deref h (Labels point))
       [\<lparr>LabelName = ''__name__'', LabelValue = Name point\<rparr>]"

text \<open>
  What a call does to the outside, in the order in which it happens: the log entries and
  the calls to the libraries that build or use network resources.
\<close>

record BasicAuthOptions =
  User :: string
  Password :: string

type_synonym Header = "(string \<times> string list) list"

record Options =
  BasicAuth :: "BasicAuthOptions option"
  Header :: Header

type_synonym RoundTripper = nat

record ClientConfig =
  UserAgent :: string
  WriteURL :: string
  HTTPClientTimeout :: Duration
  HTTPClient :: RoundTripper

datatype event =
    LogDebug string "string list"
  | CallWriteTimeSeries "TimeSeries list"
  | CallGetTransport Options
  | CallNewClient ClientConfig

text \<open>The loop of \<open>Write\<close> that maps each point to a wire time series.\<close>

definition wire_series :: "heap \<Rightarrow> Point list \<Rightarrow> TimeSeries list" where
  "wire_series h points =
     map (\<lambda>p. \<lparr>SeriesLabels = promremoteLabelsFromPoint h p,
               Datapoint = \<lparr>Timestamp = T (Metric p), Value = V (Metric p)\<rparr>\<rparr>)
       points"

text \<open>
  \<open>Write\<close> returns its error (or nil), the events of the call and the store it leaves.
  The context is only handed on to the logger and the client and is left out.
\<close>

definition Write ::
  "('f, 'cr) library \<Rightarrow> PrometheusWriter \<Rightarrow> string \<Rightarrow> Time \<Rightarrow> 'f \<Rightarrow> mapref \<Rightarrow> heap
     \<Rightarrow> error option \<times> event list \<times> heap" where
  "Write lib w name t frames extraLabels h =
     (case PointsFromFrames lib name t frames extraLabels h of
        (Inl err, h') \<Rightarrow> (Some err, [], h')
      | (Inr points, h') \<Rightarrow>
          (let series = wire_series h' points;
               events = [LogDebug ''Writing metric'' [''name'', name], CallWriteTimeSeries series];
               writeErr = client w series
           in case checkWriteError writeErr of
                Some err \<Rightarrow> (Some (Wrapf ''failed to write time series: '' err), events, h')
              | None \<Rightarrow> (None, events, h')))"

section \<open>NewPrometheusWriter\<close>

record RecordingRuleSettings =
  URL :: string
  Timeout :: Duration
  BasicAuthUsername :: string
  BasicAuthPassword :: string
  CustomHeaders :: entries

text \<open>
  What construction calls outside the package: \<open>url.Parse\<close> (only its error is used),
  \<open>http.Header.Add\<close>, the injected transport provider and \<open>promremote.NewClient\<close>.
\<close>

record platform =
  url_Parse :: "string \<Rightarrow> error option"
  Header_Add :: "Header \<Rightarrow> string \<Rightarrow> string \<Rightarrow> Header"
  GetTransport :: "Options \<Rightarrow> error + RoundTripper"
  NewClient :: "ClientConfig \<Rightarrow> error + Client"

definition validateSettings :: "platform \<Rightarrow> RecordingRuleSettings \<Rightarrow> error option" where
  "validateSettings env settings =
     (if BasicAuthUsername settings \<noteq> [] \<and> BasicAuthPassword settings = []
      then Some (Errorf ''basic auth password is required if username is set'')
      else case url_Parse env (URL settings) of
             Some err \<Rightarrow> Some (Wrapf ''invalid URL: '' err)
           | None \<Rightarrow>
               if sint (Timeout settings) \<le> 0
               then Some (Errorf ''timeout must be greater than 0'')
               else None)"

definition createAuthOpts :: "string \<Rightarrow> string \<Rightarrow> BasicAuthOptions option" where
  "createAuthOpts username password =
     (if username = [] then None else Some \<lparr>User = username, Password = password\<rparr>)"

text \<open>The loop that adds every custom header to a new \<open>http.Header\<close>.\<close>

definition custom_headers :: "platform \<Rightarrow> RecordingRuleSettings \<Rightarrow> Header" where
  "custom_headers env settings =
     fold (\<lambda>(k, v) hs. Header_Add env hs k v) (CustomHeaders settings) []"

definition NewPrometheusWriter ::
  "platform \<Rightarrow> RecordingRuleSettings \<Rightarrow> (error + PrometheusWriter) \<times> event list" where
  "NewPrometheusWriter env settings =
     (case validateSettings env settings of
        Some err \<Rightarrow> (Inl err, [])
      | None \<Rightarrow>
          (let headers = custom_headers env settings;
               opts = \<lparr>BasicAuth = createAuthOpts (BasicAuthUsername settings)
                                    (BasicAuthPassword settings),
                       Header = headers\<rparr>
           in case GetTransport env opts of
                Inl err \<Rightarrow> (Inl err, [CallGetTransport opts])
              | Inr rt \<Rightarrow>
                  (let clientCfg = \<lparr>UserAgent = ''grafana-recording-rule'',
                                    WriteURL = URL settings,
                                    HTTPClientTimeout = Timeout settings,
                                    HTTPClient = rt\<rparr>
                   in case NewClient env clientCfg of
                        Inl err \<Rightarrow> (Inl err, [CallGetTransport opts, CallNewClient clientCfg])
                      | Inr c \<Rightarrow>
                          (Inr \<lparr>client = c\<rparr>,
                           [CallGetTransport opts, CallNewClient clientCfg]))))"

section \<open>Notions used to state the properties\<close>

text \<open>
  A map reference is valid in a store when it is nil or the address of an allocated map;
  Go has no other map values.
\<close>

definition valid_ref :: "heap \<Rightarrow> mapref \<Rightarrow> bool" where
  "valid_ref h m = (case m of None \<Rightarrow> True | Some a \<Rightarrow> a < length h)"

definition valid_refs :: "heap \<Rightarrow> MetricRef list \<Rightarrow> bool" where
  "valid_refs h refs = list_all (\<lambda>r. valid_ref h (GetLabels r)) refs"

text \<open>The keys of a Go map are unique.\<close>

definition unique_keys :: "entries \<Rightarrow> bool" where
  "unique_keys kvs = distinct (map fst kvs)"

text \<open>Assigning the entries \<open>extra\<close> one after the other to the entries \<open>base\<close>.\<close>

definition overlay :: "entries \<Rightarrow> entries \<Rightarrow> entries" where
  "overlay extra base = fold (\<lambda>(k, v). AList.update k v) extra base"

text \<open>
  The entries that the label map of a series ends with: the labels of the series without
  \<open>__name__\<close>, then the extra labels assigned over them.
\<close>

definition merged_labels :: "heap \<Rightarrow> mapref \<Rightarrow> MetricRef \<Rightarrow> entries" where
  "merged_labels h extraLabels ref =
     overlay (deref h extraLabels) (AList.delete ''__name__'' (deref h (GetLabels ref)))"

text \<open>What a point holds, with the entries of its label map read from the store.\<close>

definition contents :: "heap \<Rightarrow> Point \<Rightarrow> string \<times> entries \<times> Metric" where
  "contents h p = (Name p, deref h (Labels p), Metric p)"

text \<open>The point of a series whose label map was allocated at the address \<open>a\<close>.\<close>

definition new_point :: "string \<Rightarrow> Time \<Rightarrow> addr \<times> MetricRef \<Rightarrow> Point" where
  "new_point name t ar =
     \<lparr>Name = name, Labels = Some (fst ar), Metric = \<lparr>T = t, V = float_of_ref (snd ar)\<rparr>\<rparr>"

text \<open>How many labels of a wire label list are named \<open>__name__\<close>.\<close>

definition name_label_count :: "Label list \<Rightarrow> nat" where
  "name_label_count ls = length (filter (\<lambda>l. LabelName l = ''__name__'') ls)"

text \<open>
  The configuration errors of the spec: the errors that \<open>validateSettings\<close> makes for a
  missing password, a URL that does not parse and a timeout that is not positive.
\<close>

fun ConfigError :: "error \<Rightarrow> bool" where
  "ConfigError (Errorf m) =
     (m = ''basic auth password is required if username is set'' \<or>
      m = ''timeout must be greater than 0'')"
| "ConfigError (Wrapf m e) = (m = ''invalid URL: '')"
| "ConfigError (LibError m) = False"
| "ConfigError (RemoteError we) = False"
| "ConfigError (Panic m) = False"

text \<open>The status codes of the HTTP 400 class: the client errors, 400 to 499.\<close>

definition client_error_class :: "int \<Rightarrow> bool" where
  "client_error_class code \<longleftrightarrow> 400 \<le> code \<and> code < 500"

section \<open>Concrete inputs\<close>

text \<open>
  A library whose frames are the outcome of reading them: an error, or the collection
  they hold.
\<close>

definition example_library :: "bool \<Rightarrow> (error + Collection, Collection) library" where
  "example_library nil_is_nil =
     \<lparr>CollectionReaderFromFrames = (\<lambda>frames. frames),
      GetCollection = (\<lambda>cr includeEmpty. Inr cr),
      CopyOfNilIsNil = nil_is_nil\<rparr>"

text \<open>A client whose remote end gives every batch the same answer.\<close>

definition example_client :: "WriteError option \<Rightarrow> Client" where
  "example_client answer series = answer"

definition example_writer :: "WriteError option \<Rightarrow> PrometheusWriter" where
  "example_writer answer = \<lparr>client = example_client answer\<rparr>"

text \<open>
  A platform on which a URL fails to parse when it starts with a colon (a missing
  protocol scheme), and the transport provider and the client constructor succeed.
\<close>

definition example_platform :: platform where
  "example_platform =
     \<lparr>url_Parse = (\<lambda>u. if take 1 u = '':'' then Some (LibError ''missing protocol scheme'')
                         else None),
      Header_Add = (\<lambda>hs k v. hs @ [(k, [v])]),
      GetTransport = (\<lambda>opts. Inr 0),
      NewClient = (\<lambda>cfg. Inr (example_client None))\<rparr>"

text \<open>Two series: one with a value and the label map at address 0, one with neither.\<close>

definition example_refs :: "MetricRef list" where
  "example_refs =
     [\<lparr>ref_fp = Some 0x3FF8000000000000, ref_empty = False, ref_err = None,
       ref_labels = Some 0\<rparr>,
      \<lparr>ref_fp = None, ref_empty = False, ref_err = None, ref_labels = None\<rparr>]"

definition example_frames :: "error + Collection" where
  "example_frames = Inr \<lparr>Refs = example_refs\<rparr>"

text \<open>
  A store with the label map of the first series at address 0 and two maps of extra
  labels at addresses 1 and 2.
\<close>

definition example_heap :: heap where
  "example_heap =
     [[(''__name__'', ''up''), (''host'', ''a''), (''env'', ''dev'')],
      [(''env'', ''prod'')],
      [(''__name__'', ''x'')]]"

definition failing_frames :: "error + Collection" where
  "failing_frames = Inl (LibError ''no numeric frames'')"

text \<open>Settings with no basic auth, with and without a positive timeout.\<close>

definition example_settings :: "Duration \<Rightarrow> RecordingRuleSettings" where
  "example_settings timeout =
     \<lparr>URL = ''http://mimir:9009/api/v1/push'', Timeout = timeout,
      BasicAuthUsername = [], BasicAuthPassword = [],
      CustomHeaders = [(''X-Scope-OrgID'', ''1'')]\<rparr>"

text \<open>Settings with a user name, a password that may be empty and a URL.\<close>

definition auth_settings :: "string \<Rightarrow> string \<Rightarrow> RecordingRuleSettings" where
  "auth_settings password url =
     \<lparr>URL = url, Timeout = 0x2540BE400,
      BasicAuthUsername = ''grafana'', BasicAuthPassword = password,
      CustomHeaders = []\<rparr>"

section \<open>Facts about the store and the loops\<close>

lemma math_NaN_IsNaN: "math_IsNaN math_NaN"
  by (simp add: math_IsNaN_def math_NaN_def)

lemma deref_append: "valid_ref h m \<Longrightarrow> deref (h @ xs) m = deref h m"
  by (cases m) (simp_all add: deref_def valid_ref_def nth_append)

lemma valid_ref_append: "valid_ref h m \<Longrightarrow> valid_ref (h @ xs) m"
  by (cases m) (simp_all add: valid_ref_def)

lemma range_assign_Some:
  "a < length h \<Longrightarrow>
     range_assign (Some a) kvs h = Inr (h[a := overlay kvs (h ! a)])"
proof (induction kvs arbitrary: h)
  case Nil
  then show ?case by (simp add: overlay_def)
next
  case (Cons kv kvs)
  obtain k v where kv: "kv = (k, v)" by (cases kv)
  from Cons.prems have "a < length (h[a := AList.update k v (h ! a)])" by simp
  from Cons.IH [OF this] Cons.prems show ?case
    by (simp add: kv map_assign_def overlay_def)
qed

lemma map_of_overlay:
  "map_of (overlay extra base) k =
     (case map_of (rev extra) k of None \<Rightarrow> map_of base k | Some v \<Rightarrow> Some v)"
proof (induction extra arbitrary: base)
  case Nil
  then show ?case by (simp add: overlay_def)
next
  case (Cons kv extra)
  obtain k' v' where kv: "kv = (k', v')" by (cases kv)
  have "overlay (kv # extra) base = overlay extra (AList.update k' v' base)"
    by (simp add: overlay_def kv)
  then show ?case
    using Cons.IH [of "AList.update k' v' base"]
    by (simp add: kv update_conv' map_add_def split: option.splits)
qed

lemma map_of_rev_distinct: "distinct (map fst xs) \<Longrightarrow> map_of (rev xs) = map_of xs"
  by (rule map_of_inject_set[THEN iffD2]) (simp_all add: distinct_rev rev_map[symmetric])

lemma map_of_overlay_unique:
  "unique_keys extra \<Longrightarrow>
     map_of (overlay extra base) k =
       (case map_of extra k of None \<Rightarrow> map_of base k | Some v \<Rightarrow> Some v)"
  by (simp add: map_of_overlay map_of_rev_distinct unique_keys_def)

lemma point_of_ref_eq:
  assumes "valid_ref h (GetLabels ref)" and "valid_ref h extraLabels"
  shows "point_of_ref nil_is_nil name t extraLabels ref h =
     (Inr \<lparr>Name = name, Labels = Some (length h), Metric = \<lparr>T = t, V = float_of_ref ref\<rparr>\<rparr>,
      h @ [merged_labels h extraLabels ref])"
proof -
  let ?base = "deref h (GetLabels ref)"
  let ?h3 = "h @ [AList.delete ''__name__'' ?base]"
  have ex: "deref ?h3 extraLabels = deref h extraLabels"
    using assms(2) by (rule deref_append)
  have ra: "range_assign (Some (length h)) (deref h extraLabels) ?h3
              = Inr (h @ [merged_labels h extraLabels ref])"
    by (simp add: range_assign_Some merged_labels_def)
  show ?thesis
  proof (cases "GetLabels ref = None \<and> nil_is_nil")
    case True
    then show ?thesis
      using ra ex by (simp add: point_of_ref_def Copy_def make_Labels_def map_delete_def deref_def)
  next
    case False
    then show ?thesis
      using ra ex by (auto simp add: point_of_ref_def Copy_def make_Labels_def map_delete_def)
  qed
qed

lemma valid_refs_Cons:
  "valid_refs h (r # rs) \<longleftrightarrow> valid_ref h (GetLabels r) \<and> valid_refs h rs"
  by (simp add: valid_refs_def)

lemma valid_refs_append: "valid_refs h rs \<Longrightarrow> valid_refs (h @ xs) rs"
  by (induction rs) (simp_all add: valid_refs_def valid_ref_append)

lemma merged_labels_append:
  "valid_ref h extraLabels \<Longrightarrow> valid_ref h (GetLabels r) \<Longrightarrow>
     merged_labels (h @ xs) extraLabels r = merged_labels h extraLabels r"
  by (simp add: merged_labels_def deref_append)

lemma map_merged_labels_append:
  "valid_ref h extraLabels \<Longrightarrow> valid_refs h rs \<Longrightarrow>
     map (merged_labels (h @ xs) extraLabels) rs = map (merged_labels h extraLabels) rs"
  by (induction rs) (simp_all add: valid_refs_Cons merged_labels_append)

lemma points_loop_eq:
  assumes "valid_ref h extraLabels" and "valid_refs h refs"
  shows "points_loop nil_is_nil name t extraLabels refs points h =
     (Inr (points @ map (new_point name t) (enumerate (length h) refs)),
      h @ map (merged_labels h extraLabels) refs)"
  using assms
proof (induction refs arbitrary: points h)
  case Nil
  then show ?case by simp
next
  case (Cons r rs)
  let ?h' = "h @ [merged_labels h extraLabels r]"
  from Cons.prems have r: "valid_ref h (GetLabels r)" and rs: "valid_refs h rs"
    by (simp_all add: valid_refs_Cons)
  have "valid_ref ?h' extraLabels" and "valid_refs ?h' rs"
    using Cons.prems(1) rs by (simp_all add: valid_ref_append valid_refs_append)
  from Cons.IH [OF this]
  show ?case
    using r rs Cons.prems(1)
    by (simp add: point_of_ref_eq map_merged_labels_append new_point_def)
qed

lemma PointsFromFrames_eq:
  assumes "CollectionReaderFromFrames lib frames = Inr cr"
    and "GetCollection lib cr False = Inr col"
    and "valid_ref h extraLabels" and "valid_refs h (Refs col)"
  shows "PointsFromFrames lib name t frames extraLabels h =
     (Inr (map (new_point name t) (enumerate (length h) (Refs col))),
      h @ map (merged_labels h extraLabels) (Refs col))"
  using assms by (simp add: PointsFromFrames_def points_loop_eq)

lemma strings_Contains_iff: "strings_Contains s sub \<longleftrightarrow> sublist sub s"
  by (induction s) (auto simp: sublist_Cons_right)

lemma signature_loop_iff:
  "signature_loop msg DuplicateTimestampErrors \<longleftrightarrow>
     sublist ''err-mimir-sample-duplicate-timestamp'' msg \<or>
     sublist ''duplicate sample for timestamp'' msg"
  by (simp add: DuplicateTimestampErrors_def MimirDuplicateTimestampError_def
      PrometheusDuplicateTimestampError_def strings_Contains_iff)

lemma example_extraction:
  "PointsFromFrames (example_library False) ''cpu'' 17 example_frames (Some 1) example_heap =
     (Inr [\<lparr>Name = ''cpu'', Labels = Some 3, Metric = \<lparr>T = 17, V = 0x3FF8000000000000\<rparr>\<rparr>,
           \<lparr>Name = ''cpu'', Labels = Some 4, Metric = \<lparr>T = 17, V = 0x7FF8000000000001\<rparr>\<rparr>],
      example_heap @ [[(''host'', ''a''), (''env'', ''prod'')], [(''env'', ''prod'')]])"
  by code_simp

section \<open>The points of a successful extraction\<close>

lemma PointsFromFrames_nth:
  assumes "CollectionReaderFromFrames lib frames = Inr cr"
    and "GetCollection lib cr False = Inr col"
    and "valid_ref h extraLabels" and "valid_refs h (Refs col)"
    and "PointsFromFrames lib name t frames extraLabels h = (Inr points, h')"
  shows "length points = length (Refs col)"
    and "h' = h @ map (merged_labels h extraLabels) (Refs col)"
    and "i < length (Refs col) \<Longrightarrow>
           points ! i = \<lparr>Name = name, Labels = Some (length h + i),
                         Metric = \<lparr>T = t, V = float_of_ref (Refs col ! i)\<rparr>\<rparr>"
    and "i < length (Refs col) \<Longrightarrow>
           deref h' (Some (length h + i)) = merged_labels h extraLabels (Refs col ! i)"
proof -
  from PointsFromFrames_eq [OF assms(1-4), of name t] assms(5)
  have p: "points = map (new_point name t) (enumerate (length h) (Refs col))"
    and h': "h' = h @ map (merged_labels h extraLabels) (Refs col)"
    by simp_all
  show "length points = length (Refs col)"
    by (simp add: p)
  show "h' = h @ map (merged_labels h extraLabels) (Refs col)"
    by (rule h')
  show "points ! i = \<lparr>Name = name, Labels = Some (length h + i),
                       Metric = \<lparr>T = t, V = float_of_ref (Refs col ! i)\<rparr>\<rparr>"
    if "i < length (Refs col)"
    using that by (simp add: p nth_enumerate_eq new_point_def)
  show "deref h' (Some (length h + i)) = merged_labels h extraLabels (Refs col ! i)"
    if "i < length (Refs col)"
    using that by (simp add: h' deref_def nth_append)
qed

lemma example_reader:
  "CollectionReaderFromFrames (example_library b) example_frames = Inr \<lparr>Refs = example_refs\<rparr>"
  by (simp add: example_library_def example_frames_def)

lemma example_collection:
  "GetCollection (example_library b) \<lparr>Refs = example_refs\<rparr> False = Inr \<lparr>Refs = example_refs\<rparr>"
  by (simp add: example_library_def)

lemma example_valid_extra: "valid_ref example_heap (Some 1)" "valid_ref example_heap (Some 2)"
  by (simp_all add: valid_ref_def example_heap_def)

lemma example_valid_refs: "valid_refs example_heap (Refs \<lparr>Refs = example_refs\<rparr>)"
  by (simp add: valid_refs_def valid_ref_def example_heap_def example_refs_def GetLabels_def)

lemma example_unique_extra: "unique_keys (deref example_heap (Some 1))"
  by (simp add: unique_keys_def deref_def example_heap_def)

lemma example_length: "length example_refs = 2"
  by (simp add: example_refs_def)

text \<open>
  C3. When the collection read from the frames has N series and extraction succeeds, it
  returns N points, and the i-th point is the point of the i-th series: it carries the
  name and the timestamp that were passed in, the value of that series and the merged
  labels of that series.
\<close>

theorem PointsFromFrames_one_point_per_series:
  assumes "CollectionReaderFromFrames lib frames = Inr cr"
    and "GetCollection lib cr False = Inr col"
    and "valid_ref h extraLabels" and "valid_refs h (Refs col)"
    and "PointsFromFrames lib name t frames extraLabels h = (Inr points, h')"
  shows "length points = length (Refs col) \<and>
         (\<forall>i < length (Refs col).
            Name (points ! i) = name \<and>
            T (Metric (points ! i)) = t \<and>
            V (Metric (points ! i)) = float_of_ref (Refs col ! i) \<and>
            deref h' (Labels (points ! i)) = merged_labels h extraLabels (Refs col ! i))"
  using PointsFromFrames_nth [OF assms] by simp

theorem PointsFromFrames_one_point_per_series_witness:
  "PointsFromFrames (example_library False) ''cpu'' 17 example_frames (Some 1) example_heap =
     (Inr [\<lparr>Name = ''cpu'', Labels = Some 3, Metric = \<lparr>T = 17, V = 0x3FF8000000000000\<rparr>\<rparr>,
           \<lparr>Name = ''cpu'', Labels = Some 4, Metric = \<lparr>T = 17, V = 0x7FF8000000000001\<rparr>\<rparr>],
      example_heap @ [[(''host'', ''a''), (''env'', ''prod'')], [(''env'', ''prod'')]]) \<and>
   length example_refs = 2 \<and>
   float_of_ref (example_refs ! 0) = 0x3FF8000000000000 \<and>
   float_of_ref (example_refs ! 1) = 0x7FF8000000000001 \<and>
   merged_labels example_heap (Some 1) (example_refs ! 0) = [(''host'', ''a''), (''env'', ''prod'')] \<and>
   merged_labels example_heap (Some 1) (example_refs ! 1) = [(''env'', ''prod'')]"
  using PointsFromFrames_one_point_per_series
    [OF example_reader example_collection example_valid_extra(1) example_valid_refs
        example_extraction]
    example_extraction
  by (simp add: example_length deref_def example_heap_def nth_append All_less_Suc numeral_2_eq_2)

text \<open>
  C2 (as amended). When extraction succeeds, the label map of every returned point holds
  every entry of \<open>extraLabels\<close> (whatever the series had under the same key), agrees
  with the labels of its series on every key other than \<open>__name__\<close> that is not a key of
  \<open>extraLabels\<close>, and has no \<open>__name__\<close> key unless \<open>extraLabels\<close> has one.
\<close>

theorem PointsFromFrames_labels:
  assumes "CollectionReaderFromFrames lib frames = Inr cr"
    and "GetCollection lib cr False = Inr col"
    and "valid_ref h extraLabels" and "valid_refs h (Refs col)"
    and "unique_keys (deref h extraLabels)"
    and "PointsFromFrames lib name t frames extraLabels h = (Inr points, h')"
    and "i < length (Refs col)"
  shows "(\<forall>k v. (k, v) \<in> set (deref h extraLabels) \<longrightarrow>
            map_of (deref h' (Labels (points ! i))) k = Some v) \<and>
         (\<forall>k. k \<notin> fst ` set (deref h extraLabels) \<and> k \<noteq> ''__name__'' \<longrightarrow>
            map_of (deref h' (Labels (points ! i))) k
              = map_of (deref h (GetLabels (Refs col ! i))) k) \<and>
         (''__name__'' \<notin> fst ` set (deref h extraLabels) \<longrightarrow>
            map_of (deref h' (Labels (points ! i))) ''__name__'' = None)"
proof -
  let ?L = "deref h' (Labels (points ! i))"
  let ?extra = "deref h extraLabels"
  from PointsFromFrames_nth(3,4) [OF assms(1-4) assms(6) assms(7)]
  have L: "?L = merged_labels h extraLabels (Refs col ! i)"
    by simp
  have look: "map_of ?L k =
      (case map_of ?extra k of
         None \<Rightarrow> map_of (AList.delete ''__name__'' (deref h (GetLabels (Refs col ! i)))) k
       | Some v \<Rightarrow> Some v)" for k
    unfolding L merged_labels_def using assms(5) by (rule map_of_overlay_unique)
  have inside: "map_of ?extra k = Some v" if "(k, v) \<in> set ?extra" for k v
    using assms(5) that by (simp add: unique_keys_def)
  have outside: "map_of ?extra k = None" if "k \<notin> fst ` set ?extra" for k
    using that by (simp add: map_of_eq_None_iff)
  show ?thesis
    by (simp add: look inside outside delete_conv')
qed

theorem PointsFromFrames_labels_witness:
  "unique_keys (deref example_heap (Some 1)) \<and>
   map_of (deref example_heap (Some 0)) ''env'' = Some ''dev'' \<and>
   map_of (deref example_heap (Some 0)) ''__name__'' = Some ''up'' \<and>
   map_of [(''host'', ''a''), (''env'', ''prod'')] ''env'' = Some ''prod'' \<and>
   map_of [(''host'', ''a''), (''env'', ''prod'')] ''host'' = Some ''a'' \<and>
   map_of [(''host'', ''a''), (''env'', ''prod'')] ''__name__'' = None"
  using PointsFromFrames_labels
    [OF example_reader example_collection example_valid_extra(1) example_valid_refs
        example_unique_extra example_extraction, of 0]
    example_unique_extra
  by (simp add: example_length deref_def example_heap_def)

theorem PointsFromFrames_labels_counterexample:
  "PointsFromFrames (example_library False) ''cpu'' 17 example_frames (Some 2) example_heap =
     (Inr [\<lparr>Name = ''cpu'', Labels = Some 3, Metric = \<lparr>T = 17, V = 0x3FF8000000000000\<rparr>\<rparr>,
           \<lparr>Name = ''cpu'', Labels = Some 4, Metric = \<lparr>T = 17, V = 0x7FF8000000000001\<rparr>\<rparr>],
      example_heap @
        [[(''host'', ''a''), (''env'', ''dev''), (''__name__'', ''x'')], [(''__name__'', ''x'')]]) \<and>
   deref example_heap (Some 2) = [(''__name__'', ''x'')] \<and>
   map_of (deref (example_heap @
        [[(''host'', ''a''), (''env'', ''dev''), (''__name__'', ''x'')], [(''__name__'', ''x'')]])
      (Some 3)) ''__name__'' = Some ''x''"
proof -
  have "PointsFromFrames (example_library False) ''cpu'' 17 example_frames (Some 2) example_heap =
     (Inr [\<lparr>Name = ''cpu'', Labels = Some 3, Metric = \<lparr>T = 17, V = 0x3FF8000000000000\<rparr>\<rparr>,
           \<lparr>Name = ''cpu'', Labels = Some 4, Metric = \<lparr>T = 17, V = 0x7FF8000000000001\<rparr>\<rparr>],
      example_heap @
        [[(''host'', ''a''), (''env'', ''dev''), (''__name__'', ''x'')], [(''__name__'', ''x'')]])"
    by code_simp
  then show ?thesis
    by (simp add: deref_def example_heap_def)
qed

text \<open>
  C4. For every series of the collection, extraction returns a point for it: when the
  series is empty or its value is nil, the value of its point is \<open>math.NaN()\<close>, which
  is a NaN; when the series is not empty and its value is not nil, the value of its point
  is that value, bit for bit.
\<close>

theorem PointsFromFrames_value:
  assumes "CollectionReaderFromFrames lib frames = Inr cr"
    and "GetCollection lib cr False = Inr col"
    and "valid_ref h extraLabels" and "valid_refs h (Refs col)"
    and "i < length (Refs col)"
    and "NullableFloat64Value (Refs col ! i) = (fp, is_empty, err)"
  shows "\<exists>points h'.
           PointsFromFrames lib name t frames extraLabels h = (Inr points, h') \<and>
           length points = length (Refs col) \<and>
           (is_empty \<or> fp = None \<longrightarrow>
              V (Metric (points ! i)) = math_NaN \<and> math_IsNaN (V (Metric (points ! i)))) \<and>
           (\<forall>x. \<not> is_empty \<and> fp = Some x \<longrightarrow> V (Metric (points ! i)) = x)"
proof -
  define points where "points = map (new_point name t) (enumerate (length h) (Refs col))"
  define h' where "h' = h @ map (merged_labels h extraLabels) (Refs col)"
  have run: "PointsFromFrames lib name t frames extraLabels h = (Inr points, h')"
    unfolding points_def h'_def by (rule PointsFromFrames_eq [OF assms(1-4)])
  note nth = PointsFromFrames_nth [OF assms(1-4) run]
  have v: "V (Metric (points ! i)) = float_of_ref (Refs col ! i)"
    by (simp add: nth(3) [OF assms(5)])
  have nan: "V (Metric (points ! i)) = math_NaN \<and> math_IsNaN (V (Metric (points ! i)))"
    if "is_empty \<or> fp = None"
    using that assms(6)
    by (auto simp add: v float_of_ref_def math_NaN_IsNaN split: option.splits)
  have same: "V (Metric (points ! i)) = x" if "\<not> is_empty \<and> fp = Some x" for x
    using that assms(6) by (simp add: v float_of_ref_def)
  from run nth(1) nan same show ?thesis
    by blast
qed

theorem PointsFromFrames_value_witness:
  "NullableFloat64Value (example_refs ! 0) = (Some 0x3FF8000000000000, False, None) \<and>
   NullableFloat64Value (example_refs ! 1) = (None, False, None) \<and>
   (\<exists>points h'.
      PointsFromFrames (example_library False) ''cpu'' 17 example_frames (Some 1) example_heap
        = (Inr points, h') \<and>
      length points = 2 \<and>
      V (Metric (points ! 0)) = 0x3FF8000000000000 \<and>
      V (Metric (points ! 1)) = math_NaN \<and>
      math_IsNaN (V (Metric (points ! 1))))"
proof -
  have n0: "NullableFloat64Value (Refs \<lparr>Refs = example_refs\<rparr> ! 0)
              = (Some 0x3FF8000000000000, False, None)"
    and n1: "NullableFloat64Value (Refs \<lparr>Refs = example_refs\<rparr> ! 1) = (None, False, None)"
    by (simp_all add: NullableFloat64Value_def example_refs_def)
  have i0: "0 < length (Refs \<lparr>Refs = example_refs\<rparr>)"
    and i1: "1 < length (Refs \<lparr>Refs = example_refs\<rparr>)"
    by (simp_all add: example_length)
  from PointsFromFrames_value
      [OF example_reader [of False] example_collection [of False] example_valid_extra(1)
          example_valid_refs i0 n0, where name = "''cpu''" and t = 17]
  obtain points h' where
    run: "PointsFromFrames (example_library False) ''cpu'' 17 example_frames (Some 1)
            example_heap = (Inr points, h')"
    and len: "length points = 2"
    and v0: "V (Metric (points ! 0)) = 0x3FF8000000000000"
    by (auto simp add: example_length)
  from PointsFromFrames_value
      [OF example_reader [of False] example_collection [of False] example_valid_extra(1)
          example_valid_refs i1 n1, where name = "''cpu''" and t = 17]
    run
  have v1: "V (Metric (points ! 1)) = math_NaN \<and> math_IsNaN (V (Metric (points ! 1)))"
    by auto
  from run len v0 v1 n0 n1 show ?thesis
    by auto
qed

text \<open>
  C9. A successful extraction leaves every map that existed before the call as it was,
  so the label maps of the collection and the extra labels are unchanged; the label map
  of the i-th point is a map allocated by the call, at an address that no map had before
  and that no other point has, so it aliases no label map of the caller; and a second
  extraction from the same inputs, run in the store that the first one left, returns
  points with the same contents and leaves the contents of the first points as they were.
\<close>

theorem PointsFromFrames_pure:
  assumes "CollectionReaderFromFrames lib frames = Inr cr"
    and "GetCollection lib cr False = Inr col"
    and "valid_ref h extraLabels" and "valid_refs h (Refs col)"
    and "PointsFromFrames lib name t frames extraLabels h = (Inr points, h')"
  shows "(\<forall>a < length h. h' ! a = h ! a) \<and>
         (\<forall>r \<in> set (Refs col). deref h' (GetLabels r) = deref h (GetLabels r)) \<and>
         deref h' extraLabels = deref h extraLabels \<and>
         length h' = length h + length points \<and>
         (\<forall>i < length points. Labels (points ! i) = Some (length h + i)) \<and>
         (\<forall>p \<in> set points. Labels p \<noteq> extraLabels \<and>
            (\<forall>r \<in> set (Refs col). Labels p \<noteq> GetLabels r)) \<and>
         (\<exists>points2 h2.
            PointsFromFrames lib name t frames extraLabels h' = (Inr points2, h2) \<and>
            map (contents h2) points2 = map (contents h') points \<and>
            map (contents h2) points = map (contents h') points)"
proof -
  note nth = PointsFromFrames_nth [OF assms]
  let ?refs = "Refs col"
  have len: "length h' = length h + length points"
    by (simp add: nth(1,2))
  have frame: "\<forall>a < length h. h' ! a = h ! a"
    by (simp add: nth(2) nth_append)
  have valid: "valid_ref h (GetLabels r)" if "r \<in> set ?refs" for r
    using assms(4) that by (simp add: valid_refs_def list_all_iff)
  have refs: "\<forall>r \<in> set ?refs. deref h' (GetLabels r) = deref h (GetLabels r)"
    by (simp add: nth(2) valid deref_append)
  have extra: "deref h' extraLabels = deref h extraLabels"
    by (simp add: nth(2) assms(3) deref_append)
  have fresh: "\<forall>i < length points. Labels (points ! i) = Some (length h + i)"
    by (simp add: nth(1) nth(3))
  have no_alias: "Labels p \<noteq> m" if "p \<in> set points" and "valid_ref h m" for p m
  proof -
    from that(1) obtain i where "i < length points" and "points ! i = p"
      by (auto simp add: in_set_conv_nth)
    with fresh have "Labels p = Some (length h + i)" by auto
    with that(2) show ?thesis by (auto simp add: valid_ref_def)
  qed
  have v': "valid_ref h' extraLabels" "valid_refs h' ?refs"
    by (simp_all add: nth(2) assms(3,4) valid_ref_append valid_refs_append)
  define points2 where "points2 = map (new_point name t) (enumerate (length h') ?refs)"
  define h2 where "h2 = h' @ map (merged_labels h' extraLabels) ?refs"
  have run2: "PointsFromFrames lib name t frames extraLabels h' = (Inr points2, h2)"
    unfolding points2_def h2_def by (rule PointsFromFrames_eq [OF assms(1,2) v'])
  note nth2 = PointsFromFrames_nth [OF assms(1,2) v' run2]
  have same_merge: "merged_labels h' extraLabels (?refs ! i) = merged_labels h extraLabels (?refs ! i)"
    if "i < length ?refs" for i
    using that by (simp add: nth(2) merged_labels_append assms(3) valid)
  have c2: "contents h2 (points2 ! i) = contents h' (points ! i)" if "i < length ?refs" for i
    using that nth(4) [OF that] nth2(4) [OF that]
    by (simp add: contents_def nth(3) nth2(3) same_merge)
  have c1: "contents h2 (points ! i) = contents h' (points ! i)" if "i < length ?refs" for i
  proof -
    have "valid_ref h' (Some (length h + i))"
      using that by (simp add: valid_ref_def len nth(1))
    then have "deref h2 (Some (length h + i)) = deref h' (Some (length h + i))"
      unfolding h2_def by (rule deref_append)
    then show ?thesis
      using that by (simp add: contents_def nth(3))
  qed
  have "map (contents h2) points2 = map (contents h') points"
    by (rule nth_equalityI) (simp_all add: nth(1) nth2(1) c2)
  moreover have "map (contents h2) points = map (contents h') points"
    by (rule nth_equalityI) (simp_all add: nth(1) c1)
  ultimately have again: "\<exists>points2 h2.
      PointsFromFrames lib name t frames extraLabels h' = (Inr points2, h2) \<and>
      map (contents h2) points2 = map (contents h') points \<and>
      map (contents h2) points = map (contents h') points"
    using run2 by blast
  from no_alias assms(3) valid
  have apart: "\<forall>p \<in> set points. Labels p \<noteq> extraLabels \<and>
            (\<forall>r \<in> set ?refs. Labels p \<noteq> GetLabels r)"
    by blast
  from frame refs extra len fresh apart again show ?thesis
    by blast
qed

theorem PointsFromFrames_pure_witness:
  "valid_ref example_heap (Some 1) \<and>
   valid_refs example_heap example_refs \<and>
   (example_heap @ [[(''host'', ''a''), (''env'', ''prod'')], [(''env'', ''prod'')]]) ! 0
     = example_heap ! 0 \<and>
   deref (example_heap @ [[(''host'', ''a''), (''env'', ''prod'')], [(''env'', ''prod'')]]) (Some 1)
     = deref example_heap (Some 1) \<and>
   length (example_heap @ [[(''host'', ''a''), (''env'', ''prod'')], [(''env'', ''prod'')]])
     = length example_heap + 2"
  using PointsFromFrames_pure
    [OF example_reader example_collection example_valid_extra(1) example_valid_refs
        example_extraction]
    example_valid_extra(1) example_valid_refs
  by (simp add: example_heap_def)

text \<open>
  C10. When the label map of a series is nil, extraction still succeeds, whatever
  \<open>Copy\<close> returns for a nil receiver: the label map of its point is not nil, it is a map
  that did not exist before the call, and its entries are the extra labels assigned to an
  empty map.
\<close>

theorem PointsFromFrames_nil_labels:
  assumes "CollectionReaderFromFrames lib frames = Inr cr"
    and "GetCollection lib cr False = Inr col"
    and "valid_ref h extraLabels" and "valid_refs h (Refs col)"
    and "i < length (Refs col)"
    and "GetLabels (Refs col ! i) = None"
  shows "\<exists>points h'.
           PointsFromFrames lib name t frames extraLabels h = (Inr points, h') \<and>
           i < length points \<and>
           Labels (points ! i) \<noteq> None \<and>
           \<not> valid_ref h (Labels (points ! i)) \<and>
           valid_ref h' (Labels (points ! i)) \<and>
           deref h' (Labels (points ! i)) = overlay (deref h extraLabels) [] \<and>
           (unique_keys (deref h extraLabels) \<longrightarrow>
              map_of (deref h' (Labels (points ! i))) = map_of (deref h extraLabels))"
proof -
  define points where "points = map (new_point name t) (enumerate (length h) (Refs col))"
  define h' where "h' = h @ map (merged_labels h extraLabels) (Refs col)"
  have run: "PointsFromFrames lib name t frames extraLabels h = (Inr points, h')"
    unfolding points_def h'_def by (rule PointsFromFrames_eq [OF assms(1-4)])
  note nth = PointsFromFrames_nth [OF assms(1-4) run]
  have p: "Labels (points ! i) = Some (length h + i)"
    by (simp add: nth(3) [OF assms(5)])
  have entries: "deref h' (Labels (points ! i)) = overlay (deref h extraLabels) []"
    using nth(4) [OF assms(5)] assms(6) by (simp add: p merged_labels_def deref_def)
  have "map_of (deref h' (Labels (points ! i))) = map_of (deref h extraLabels)"
    if "unique_keys (deref h extraLabels)"
    by (rule ext) (simp add: entries map_of_overlay_unique [OF that] split: option.splits)
  moreover have "i < length points"
    by (simp add: nth(1) assms(5))
  moreover have "\<not> valid_ref h (Labels (points ! i))" "valid_ref h' (Labels (points ! i))"
    using assms(5) by (simp_all add: p valid_ref_def nth(2))
  ultimately show ?thesis
    using run p entries by auto
qed

lemma example_extraction_nil_is_nil:
  "PointsFromFrames (example_library True) ''cpu'' 17 example_frames (Some 1) example_heap =
     (Inr [\<lparr>Name = ''cpu'', Labels = Some 3, Metric = \<lparr>T = 17, V = 0x3FF8000000000000\<rparr>\<rparr>,
           \<lparr>Name = ''cpu'', Labels = Some 4, Metric = \<lparr>T = 17, V = 0x7FF8000000000001\<rparr>\<rparr>],
      example_heap @ [[(''host'', ''a''), (''env'', ''prod'')], [(''env'', ''prod'')]])"
  by code_simp

theorem PointsFromFrames_nil_labels_witness:
  "GetLabels (example_refs ! 1) = None \<and>
   PointsFromFrames (example_library True) ''cpu'' 17 example_frames (Some 1) example_heap =
     (Inr [\<lparr>Name = ''cpu'', Labels = Some 3, Metric = \<lparr>T = 17, V = 0x3FF8000000000000\<rparr>\<rparr>,
           \<lparr>Name = ''cpu'', Labels = Some 4, Metric = \<lparr>T = 17, V = 0x7FF8000000000001\<rparr>\<rparr>],
      example_heap @ [[(''host'', ''a''), (''env'', ''prod'')], [(''env'', ''prod'')]]) \<and>
   \<not> valid_ref example_heap (Some 4) \<and>
   overlay (deref example_heap (Some 1)) [] = [(''env'', ''prod'')]"
proof -
  have n: "GetLabels (Refs \<lparr>Refs = example_refs\<rparr> ! 1) = None"
    by (simp add: GetLabels_def example_refs_def)
  have i: "1 < length (Refs \<lparr>Refs = example_refs\<rparr>)"
    by (simp add: example_length)
  show ?thesis
    using PointsFromFrames_nil_labels
        [OF example_reader example_collection example_valid_extra(1) example_valid_refs i n,
         of True "''cpu''" 17]
      n example_extraction_nil_is_nil
    by (auto simp add: deref_def nth_append example_heap_def)
qed

section \<open>What Write sends and returns\<close>

text \<open>
  C8. When point extraction fails, \<open>Write\<close> returns the error of the extraction and
  does nothing else: it logs nothing and it does not call the remote-write client.
\<close>

theorem Write_extraction_failure:
  assumes "PointsFromFrames lib name t frames extraLabels h = (Inl err, h')"
  shows "Write lib w name t frames extraLabels h = (Some err, [], h')"
  using assms by (simp add: Write_def)

theorem Write_extraction_failure_witness:
  "PointsFromFrames (example_library False) ''cpu'' 17 failing_frames (Some 1) example_heap
     = (Inl (LibError ''no numeric frames''), example_heap) \<and>
   Write (example_library False) (example_writer None) ''cpu'' 17 failing_frames (Some 1)
       example_heap
     = (Some (LibError ''no numeric frames''), [], example_heap)"
proof -
  have f: "PointsFromFrames (example_library False) ''cpu'' 17 failing_frames (Some 1) example_heap
     = (Inl (LibError ''no numeric frames''), example_heap)"
    by (simp add: PointsFromFrames_def example_library_def failing_frames_def)
  show ?thesis
    using Write_extraction_failure [OF f, of "example_writer None"] f by simp
qed

lemma fold_append_labels:
  "fold (\<lambda>(k, v) labels. labels @ [\<lparr>LabelName = k, LabelValue = v\<rparr>]) kvs init =
     init @ map (\<lambda>(k, v). \<lparr>LabelName = k, LabelValue = v\<rparr>) kvs"
  by (induction kvs arbitrary: init) (simp_all add: case_prod_beta)

lemma promremoteLabelsFromPoint_eq:
  "promremoteLabelsFromPoint h p =
     \<lparr>LabelName = ''__name__'', LabelValue = Name p\<rparr> #
     map (\<lambda>(k, v). \<lparr>LabelName = k, LabelValue = v\<rparr>) (deref h (Labels p))"
  by (simp add: promremoteLabelsFromPoint_def fold_append_labels)

lemma name_label_count_entries:
  "name_label_count (map (\<lambda>(k, v). \<lparr>LabelName = k, LabelValue = v\<rparr>) kvs) = 0
     \<longleftrightarrow> ''__name__'' \<notin> fst ` set kvs"
  by (force simp add: name_label_count_def filter_empty_conv)

lemma name_label_count_Cons:
  "name_label_count (l # ls) =
     (if LabelName l = ''__name__'' then Suc (name_label_count ls) else name_label_count ls)"
  by (simp add: name_label_count_def)

lemma keys_overlay: "fst ` set (overlay extra base) = fst ` set base \<union> fst ` set extra"
proof (induction extra arbitrary: base)
  case Nil
  then show ?case by (simp add: overlay_def)
next
  case (Cons kv extra)
  obtain k v where kv: "kv = (k, v)" by (cases kv)
  have "overlay (kv # extra) base = overlay extra (AList.update k v base)"
    by (simp add: overlay_def kv)
  then show ?case
    using Cons.IH [of "AList.update k v base"] by (auto simp add: kv dom_update)
qed

lemma keys_merged_labels:
  "''__name__'' \<notin> fst ` set (deref h extraLabels) \<Longrightarrow>
     ''__name__'' \<notin> fst ` set (merged_labels h extraLabels r)"
  using delete_notin_dom [of "''__name__''" "deref h (GetLabels r)"]
  by (simp add: merged_labels_def keys_overlay)

text \<open>
  C7 (as amended). When extraction succeeds, \<open>Write\<close> hands the client one wire series
  per point. The label list of the series of a point starts with the label \<open>__name__\<close>
  whose value is the name of the point, followed by one label for every entry of the label
  map of the point, in the order of the map. The list has exactly one label named
  \<open>__name__\<close> if and only if the label map of the point has no \<open>__name__\<close> key, which
  is the case whenever \<open>extraLabels\<close> has no \<open>__name__\<close> key.
\<close>

theorem Write_wire_labels:
  assumes "CollectionReaderFromFrames lib frames = Inr cr"
    and "GetCollection lib cr False = Inr col"
    and "valid_ref h extraLabels" and "valid_refs h (Refs col)"
    and "PointsFromFrames lib name t frames extraLabels h = (Inr points, h')"
    and "i < length points"
  shows "fst (snd (Write lib w name t frames extraLabels h)) =
           [LogDebug ''Writing metric'' [''name'', name],
            CallWriteTimeSeries (wire_series h' points)] \<and>
         length (wire_series h' points) = length points \<and>
         SeriesLabels (wire_series h' points ! i) =
           \<lparr>LabelName = ''__name__'', LabelValue = Name (points ! i)\<rparr> #
           map (\<lambda>(k, v). \<lparr>LabelName = k, LabelValue = v\<rparr>) (deref h' (Labels (points ! i))) \<and>
         (name_label_count (SeriesLabels (wire_series h' points ! i)) = 1 \<longleftrightarrow>
            ''__name__'' \<notin> fst ` set (deref h' (Labels (points ! i)))) \<and>
         (''__name__'' \<notin> fst ` set (deref h extraLabels) \<longrightarrow>
            name_label_count (SeriesLabels (wire_series h' points ! i)) = 1)"
proof -
  note nth = PointsFromFrames_nth [OF assms(1-5)]
  from assms(6) have i: "i < length (Refs col)"
    by (simp add: nth(1))
  have events: "fst (snd (Write lib w name t frames extraLabels h)) =
           [LogDebug ''Writing metric'' [''name'', name],
            CallWriteTimeSeries (wire_series h' points)]"
    using assms(5) by (simp add: Write_def Let_def split: option.splits)
  have labels: "SeriesLabels (wire_series h' points ! i) =
           \<lparr>LabelName = ''__name__'', LabelValue = Name (points ! i)\<rparr> #
           map (\<lambda>(k, v). \<lparr>LabelName = k, LabelValue = v\<rparr>) (deref h' (Labels (points ! i)))"
    using assms(6) by (simp add: wire_series_def promremoteLabelsFromPoint_eq)
  have one: "name_label_count (SeriesLabels (wire_series h' points ! i)) = 1 \<longleftrightarrow>
            ''__name__'' \<notin> fst ` set (deref h' (Labels (points ! i)))"
    unfolding labels
    using name_label_count_entries [of "deref h' (Labels (points ! i))"]
    by (simp add: name_label_count_Cons)
  have "deref h' (Labels (points ! i)) = merged_labels h extraLabels (Refs col ! i)"
    using nth(4) [OF i] by (simp add: nth(3) [OF i])
  then have "''__name__'' \<notin> fst ` set (deref h' (Labels (points ! i)))"
    if "''__name__'' \<notin> fst ` set (deref h extraLabels)"
    using keys_merged_labels [OF that] by simp
  with events labels one show ?thesis
    by (simp add: wire_series_def)
qed

theorem Write_wire_labels_witness:
  "''__name__'' \<notin> fst ` set (deref example_heap (Some 1)) \<and>
   name_label_count
     [\<lparr>LabelName = ''__name__'', LabelValue = ''cpu''\<rparr>,
      \<lparr>LabelName = ''host'', LabelValue = ''a''\<rparr>,
      \<lparr>LabelName = ''env'', LabelValue = ''prod''\<rparr>] = 1 \<and>
   SeriesLabels
     (wire_series (example_heap @ [[(''host'', ''a''), (''env'', ''prod'')], [(''env'', ''prod'')]])
        [\<lparr>Name = ''cpu'', Labels = Some 3, Metric = \<lparr>T = 17, V = 0x3FF8000000000000\<rparr>\<rparr>,
         \<lparr>Name = ''cpu'', Labels = Some 4, Metric = \<lparr>T = 17, V = 0x7FF8000000000001\<rparr>\<rparr>] ! 0)
     = [\<lparr>LabelName = ''__name__'', LabelValue = ''cpu''\<rparr>,
        \<lparr>LabelName = ''host'', LabelValue = ''a''\<rparr>,
        \<lparr>LabelName = ''env'', LabelValue = ''prod''\<rparr>]"
proof -
  have e: "''__name__'' \<notin> fst ` set (deref example_heap (Some 1))"
    by (simp add: deref_def example_heap_def)
  show ?thesis
    using Write_wire_labels
        [OF example_reader example_collection example_valid_extra(1) example_valid_refs
            example_extraction, of 0 "example_writer None"]
      e
    by (simp add: deref_def example_heap_def name_label_count_def)
qed

theorem Write_wire_labels_counterexample:
  "Write (example_library False) (example_writer None) ''cpu'' 17 example_frames (Some 2)
       example_heap =
     (None,
      [LogDebug ''Writing metric'' [''name'', ''cpu''],
       CallWriteTimeSeries
         [\<lparr>SeriesLabels =
             [\<lparr>LabelName = ''__name__'', LabelValue = ''cpu''\<rparr>,
              \<lparr>LabelName = ''host'', LabelValue = ''a''\<rparr>,
              \<lparr>LabelName = ''env'', LabelValue = ''dev''\<rparr>,
              \<lparr>LabelName = ''__name__'', LabelValue = ''x''\<rparr>],
           Datapoint = \<lparr>Timestamp = 17, Value = 0x3FF8000000000000\<rparr>\<rparr>,
          \<lparr>SeriesLabels =
             [\<lparr>LabelName = ''__name__'', LabelValue = ''cpu''\<rparr>,
              \<lparr>LabelName = ''__name__'', LabelValue = ''x''\<rparr>],
           Datapoint = \<lparr>Timestamp = 17, Value = 0x7FF8000000000001\<rparr>\<rparr>]],
      example_heap @
        [[(''host'', ''a''), (''env'', ''dev''), (''__name__'', ''x'')], [(''__name__'', ''x'')]]) \<and>
   name_label_count
     [\<lparr>LabelName = ''__name__'', LabelValue = ''cpu''\<rparr>,
      \<lparr>LabelName = ''host'', LabelValue = ''a''\<rparr>,
      \<lparr>LabelName = ''env'', LabelValue = ''dev''\<rparr>,
      \<lparr>LabelName = ''__name__'', LabelValue = ''x''\<rparr>] = 2"
proof -
  have "Write (example_library False) (example_writer None) ''cpu'' 17 example_frames (Some 2)
       example_heap =
     (None,
      [LogDebug ''Writing metric'' [''name'', ''cpu''],
       CallWriteTimeSeries
         [\<lparr>SeriesLabels =
             [\<lparr>LabelName = ''__name__'', LabelValue = ''cpu''\<rparr>,
              \<lparr>LabelName = ''host'', LabelValue = ''a''\<rparr>,
              \<lparr>LabelName = ''env'', LabelValue = ''dev''\<rparr>,
              \<lparr>LabelName = ''__name__'', LabelValue = ''x''\<rparr>],
           Datapoint = \<lparr>Timestamp = 17, Value = 0x3FF8000000000000\<rparr>\<rparr>,
          \<lparr>SeriesLabels =
             [\<lparr>LabelName = ''__name__'', LabelValue = ''cpu''\<rparr>,
              \<lparr>LabelName = ''__name__'', LabelValue = ''x''\<rparr>],
           Datapoint = \<lparr>Timestamp = 17, Value = 0x7FF8000000000001\<rparr>\<rparr>]],
      example_heap @
        [[(''host'', ''a''), (''env'', ''dev''), (''__name__'', ''x'')], [(''__name__'', ''x'')]])"
    by code_simp
  then show ?thesis
    by (simp add: name_label_count_def)
qed

section \<open>Error classification of Write\<close>

text \<open>
  C1 (as amended). Whenever \<open>Write\<close> reaches the remote-write call and the call fails
  with the error \<open>we\<close>: if the status code of \<open>we\<close> is exactly 400 and its message
  contains \<open>err-mimir-sample-duplicate-timestamp\<close> or \<open>duplicate sample for timestamp\<close>,
  then \<open>Write\<close> returns nil; in every other case (status 400 with another message, or
  any other status, also another status of the 400 class, whatever the message)
  \<open>Write\<close> returns the error wrapped by \<open>fmt.Errorf\<close>, whose text is
  \<open>failed to write time series: \<close> followed by the message of \<open>we\<close>.
\<close>

theorem Write_classifies_remote_error:
  assumes "PointsFromFrames lib name t frames extraLabels h = (Inr points, h')"
    and "client w (wire_series h' points) = Some we"
  shows "(StatusCode we = 400 \<and>
            (sublist ''err-mimir-sample-duplicate-timestamp'' (Message we) \<or>
             sublist ''duplicate sample for timestamp'' (Message we))
          \<longrightarrow> fst (Write lib w name t frames extraLabels h) = None) \<and>
         (\<not> (StatusCode we = 400 \<and>
            (sublist ''err-mimir-sample-duplicate-timestamp'' (Message we) \<or>
             sublist ''duplicate sample for timestamp'' (Message we)))
          \<longrightarrow> fst (Write lib w name t frames extraLabels h)
                = Some (Wrapf ''failed to write time series: '' (RemoteError we)) \<and>
              Error (Wrapf ''failed to write time series: '' (RemoteError we))
                = ''failed to write time series: '' @ Message we)"
  using assms
  by (simp add: Write_def checkWriteError_def signature_loop_iff Let_def)

lemma contains_mimir_signature: "sublist ''err-mimir-sample-duplicate-timestamp''
     ''server returned 400: err-mimir-sample-duplicate-timestamp for series''"
  unfolding strings_Contains_iff [symmetric] by code_simp

lemma lacks_mimir_signature: "\<not> sublist ''err-mimir-sample-duplicate-timestamp'' ''out of order sample''"
  unfolding strings_Contains_iff [symmetric] by code_simp

lemma lacks_prometheus_signature: "\<not> sublist ''duplicate sample for timestamp'' ''out of order sample''"
  unfolding strings_Contains_iff [symmetric] by code_simp

theorem Write_classifies_remote_error_witness:
  "fst (Write (example_library False)
          (example_writer (Some \<lparr>StatusCode = 400,
             Message = ''server returned 400: err-mimir-sample-duplicate-timestamp for series''\<rparr>))
          ''cpu'' 17 example_frames (Some 1) example_heap) = None \<and>
   fst (Write (example_library False)
          (example_writer (Some \<lparr>StatusCode = 400, Message = ''out of order sample''\<rparr>))
          ''cpu'' 17 example_frames (Some 1) example_heap)
     = Some (Wrapf ''failed to write time series: ''
          (RemoteError \<lparr>StatusCode = 400, Message = ''out of order sample''\<rparr>)) \<and>
   fst (Write (example_library False)
          (example_writer (Some \<lparr>StatusCode = 500,
             Message = ''server returned 400: err-mimir-sample-duplicate-timestamp for series''\<rparr>))
          ''cpu'' 17 example_frames (Some 1) example_heap)
     = Some (Wrapf ''failed to write time series: ''
          (RemoteError \<lparr>StatusCode = 500,
             Message = ''server returned 400: err-mimir-sample-duplicate-timestamp for series''\<rparr>)) \<and>
   fst (Write (example_library False)
          (example_writer (Some \<lparr>StatusCode = 401,
             Message = ''server returned 400: err-mimir-sample-duplicate-timestamp for series''\<rparr>))
          ''cpu'' 17 example_frames (Some 1) example_heap)
     = Some (Wrapf ''failed to write time series: ''
          (RemoteError \<lparr>StatusCode = 401,
             Message = ''server returned 400: err-mimir-sample-duplicate-timestamp for series''\<rparr>))"
proof -
  note ex = example_extraction
  have c: "\<And>a s. client (example_writer a) s = a"
    by (simp add: example_writer_def example_client_def)
  show ?thesis
    using Write_classifies_remote_error [OF ex c, of "\<lparr>StatusCode = 400,
             Message = ''server returned 400: err-mimir-sample-duplicate-timestamp for series''\<rparr>"]
      Write_classifies_remote_error [OF ex c, of "\<lparr>StatusCode = 400, Message = ''out of order sample''\<rparr>"]
      Write_classifies_remote_error [OF ex c, of "\<lparr>StatusCode = 500,
             Message = ''server returned 400: err-mimir-sample-duplicate-timestamp for series''\<rparr>"]
      Write_classifies_remote_error [OF ex c, of "\<lparr>StatusCode = 401,
             Message = ''server returned 400: err-mimir-sample-duplicate-timestamp for series''\<rparr>"]
      contains_mimir_signature lacks_mimir_signature lacks_prometheus_signature
    by simp
qed

lemma contains_mimir_signature_conflict:
  "sublist ''err-mimir-sample-duplicate-timestamp''
     ''server returned 409: err-mimir-sample-duplicate-timestamp''"
  unfolding strings_Contains_iff [symmetric] by code_simp

theorem Write_classifies_remote_error_counterexample:
  "client_error_class
     (StatusCode \<lparr>StatusCode = 409,
        Message = ''server returned 409: err-mimir-sample-duplicate-timestamp''\<rparr>) \<and>
   sublist ''err-mimir-sample-duplicate-timestamp''
     (Message \<lparr>StatusCode = 409,
        Message = ''server returned 409: err-mimir-sample-duplicate-timestamp''\<rparr>) \<and>
   fst (Write (example_library False)
          (example_writer (Some \<lparr>StatusCode = 409,
             Message = ''server returned 409: err-mimir-sample-duplicate-timestamp''\<rparr>))
          ''cpu'' 17 example_frames (Some 1) example_heap)
     = Some (Wrapf ''failed to write time series: ''
          (RemoteError \<lparr>StatusCode = 409,
             Message = ''server returned 409: err-mimir-sample-duplicate-timestamp''\<rparr>))"
proof -
  have "fst (Write (example_library False)
          (example_writer (Some \<lparr>StatusCode = 409,
             Message = ''server returned 409: err-mimir-sample-duplicate-timestamp''\<rparr>))
          ''cpu'' 17 example_frames (Some 1) example_heap)
     = Some (Wrapf ''failed to write time series: ''
          (RemoteError \<lparr>StatusCode = 409,
             Message = ''server returned 409: err-mimir-sample-duplicate-timestamp''\<rparr>))"
    by code_simp
  then show ?thesis
    using contains_mimir_signature_conflict by (simp add: client_error_class_def)
qed

section \<open>Construction of the writer\<close>

lemma validateSettings_None_iff:
  "validateSettings env s = None \<longleftrightarrow>
     (BasicAuthUsername s = [] \<or> BasicAuthPassword s \<noteq> []) \<and>
     url_Parse env (URL s) = None \<and> 0 < sint (Timeout s)"
  by (auto simp add: validateSettings_def split: option.splits)

lemma validateSettings_ConfigError: "validateSettings env s = Some e \<Longrightarrow> ConfigError e"
  by (auto simp add: validateSettings_def split: if_splits option.splits)

lemma NewPrometheusWriter_invalid:
  "validateSettings env s = Some e \<Longrightarrow> NewPrometheusWriter env s = (Inl e, [])"
  by (simp add: NewPrometheusWriter_def)

text \<open>
  C6 (as amended). Construction fails with a configuration error, and before it asks for
  a transport or a client, whenever the timeout is not strictly positive or the URL does
  not parse. Validation passes exactly when the timeout is strictly positive, the URL
  parses, and the user name is empty or the password is not.
\<close>

theorem NewPrometheusWriter_timeout_and_url:
  "(sint (Timeout s) \<le> 0 \<or> url_Parse env (URL s) \<noteq> None \<longrightarrow>
      (\<exists>e. ConfigError e \<and> validateSettings env s = Some e \<and>
           NewPrometheusWriter env s = (Inl e, []))) \<and>
   (validateSettings env s = None \<longleftrightarrow>
      0 < sint (Timeout s) \<and> url_Parse env (URL s) = None \<and>
      (BasicAuthUsername s = [] \<or> BasicAuthPassword s \<noteq> []))"
proof -
  have "\<exists>e. ConfigError e \<and> validateSettings env s = Some e \<and>
           NewPrometheusWriter env s = (Inl e, [])"
    if "sint (Timeout s) \<le> 0 \<or> url_Parse env (URL s) \<noteq> None"
  proof -
    from that have "validateSettings env s \<noteq> None"
      by (auto simp add: validateSettings_None_iff)
    then obtain e where e: "validateSettings env s = Some e"
      by auto
    with validateSettings_ConfigError [OF e] NewPrometheusWriter_invalid [OF e] show ?thesis
      by simp
  qed
  then show ?thesis
    by (auto simp add: validateSettings_None_iff)
qed

theorem NewPrometheusWriter_timeout_and_url_witness:
  "NewPrometheusWriter example_platform (example_settings 0)
     = (Inl (Errorf ''timeout must be greater than 0''), []) \<and>
   NewPrometheusWriter example_platform (example_settings (- 1))
     = (Inl (Errorf ''timeout must be greater than 0''), []) \<and>
   NewPrometheusWriter example_platform (auth_settings ''secret'' '':9009/push'')
     = (Inl (Wrapf ''invalid URL: '' (LibError ''missing protocol scheme'')), []) \<and>
   validateSettings example_platform (example_settings 0x2540BE400) = None \<and>
   validateSettings example_platform (auth_settings ''secret'' ''http://mimir:9009/api/v1/push'')
     = None"
  using NewPrometheusWriter_timeout_and_url [of "example_settings 0" example_platform]
    NewPrometheusWriter_timeout_and_url [of "example_settings (- 1)" example_platform]
    NewPrometheusWriter_timeout_and_url [of "auth_settings ''secret'' '':9009/push''" example_platform]
    NewPrometheusWriter_timeout_and_url [of "example_settings 0x2540BE400" example_platform]
    NewPrometheusWriter_timeout_and_url
      [of "auth_settings ''secret'' ''http://mimir:9009/api/v1/push''" example_platform]
  by (auto simp add: example_settings_def auth_settings_def example_platform_def
      validateSettings_def)

theorem NewPrometheusWriter_timeout_and_url_counterexample:
  "0 < sint (Timeout (auth_settings [] ''http://mimir:9009/api/v1/push'')) \<and>
   url_Parse example_platform (URL (auth_settings [] ''http://mimir:9009/api/v1/push'')) = None \<and>
   validateSettings example_platform (auth_settings [] ''http://mimir:9009/api/v1/push'')
     = Some (Errorf ''basic auth password is required if username is set'')"
  by (simp add: auth_settings_def example_platform_def validateSettings_def)

text \<open>
  C5 (as amended). When the user name is not empty and the password is empty,
  construction fails with the configuration error for the missing password, before a
  transport is asked for. When the user name is empty, no basic-auth option is built and
  every request for a transport carries none, whatever the password. When the user name
  and the password are empty, the URL parses, the timeout is strictly positive and the
  transport provider and the client constructor succeed, construction succeeds, with a
  transport that was asked for without basic auth.
\<close>

theorem NewPrometheusWriter_basic_auth:
  "(BasicAuthUsername s \<noteq> [] \<and> BasicAuthPassword s = [] \<longrightarrow>
      ConfigError (Errorf ''basic auth password is required if username is set'') \<and>
      NewPrometheusWriter env s
        = (Inl (Errorf ''basic auth password is required if username is set''), [])) \<and>
   (BasicAuthUsername s = [] \<longrightarrow>
      createAuthOpts (BasicAuthUsername s) (BasicAuthPassword s) = None \<and>
      (\<forall>opts. CallGetTransport opts \<in> set (snd (NewPrometheusWriter env s)) \<longrightarrow>
         BasicAuth opts = None)) \<and>
   (BasicAuthUsername s = [] \<and> BasicAuthPassword s = [] \<and>
    url_Parse env (URL s) = None \<and> 0 < sint (Timeout s) \<and>
    GetTransport env \<lparr>BasicAuth = None, Header = custom_headers env s\<rparr> = Inr rt \<and>
    NewClient env \<lparr>UserAgent = ''grafana-recording-rule'', WriteURL = URL s,
                   HTTPClientTimeout = Timeout s, HTTPClient = rt\<rparr> = Inr c \<longrightarrow>
      NewPrometheusWriter env s
        = (Inr \<lparr>client = c\<rparr>,
           [CallGetTransport \<lparr>BasicAuth = None, Header = custom_headers env s\<rparr>,
            CallNewClient \<lparr>UserAgent = ''grafana-recording-rule'', WriteURL = URL s,
                           HTTPClientTimeout = Timeout s, HTTPClient = rt\<rparr>]))"
proof -
  have missing: "NewPrometheusWriter env s
        = (Inl (Errorf ''basic auth password is required if username is set''), [])"
    if "BasicAuthUsername s \<noteq> [] \<and> BasicAuthPassword s = []"
    using that by (simp add: NewPrometheusWriter_def validateSettings_def)
  have no_auth: "BasicAuth opts = None"
    if "BasicAuthUsername s = []"
      and "CallGetTransport opts \<in> set (snd (NewPrometheusWriter env s))" for opts
    using that
    by (auto simp add: NewPrometheusWriter_def createAuthOpts_def Let_def
        split: option.splits sum.splits)
  have succeeds: "NewPrometheusWriter env s
        = (Inr \<lparr>client = c\<rparr>,
           [CallGetTransport \<lparr>BasicAuth = None, Header = custom_headers env s\<rparr>,
            CallNewClient \<lparr>UserAgent = ''grafana-recording-rule'', WriteURL = URL s,
                           HTTPClientTimeout = Timeout s, HTTPClient = rt\<rparr>])"
    if "BasicAuthUsername s = []" "BasicAuthPassword s = []"
      "url_Parse env (URL s) = None" "0 < sint (Timeout s)"
      "GetTransport env \<lparr>BasicAuth = None, Header = custom_headers env s\<rparr> = Inr rt"
      "NewClient env \<lparr>UserAgent = ''grafana-recording-rule'', WriteURL = URL s,
                   HTTPClientTimeout = Timeout s, HTTPClient = rt\<rparr> = Inr c"
  proof -
    have "validateSettings env s = None"
      using that(1,3,4) by (simp add: validateSettings_None_iff)
    then show ?thesis
      using that by (simp add: NewPrometheusWriter_def createAuthOpts_def Let_def)
  qed
  show ?thesis
    using missing no_auth succeeds by (simp add: createAuthOpts_def)
qed

theorem NewPrometheusWriter_basic_auth_witness:
  "NewPrometheusWriter example_platform (auth_settings [] ''http://mimir:9009/api/v1/push'')
     = (Inl (Errorf ''basic auth password is required if username is set''), []) \<and>
   createAuthOpts [] ''secret'' = None \<and>
   NewPrometheusWriter example_platform (example_settings 0x2540BE400)
     = (Inr \<lparr>client = example_client None\<rparr>,
        [CallGetTransport \<lparr>BasicAuth = None, Header = [(''X-Scope-OrgID'', [''1''])]\<rparr>,
         CallNewClient \<lparr>UserAgent = ''grafana-recording-rule'',
                        WriteURL = ''http://mimir:9009/api/v1/push'',
                        HTTPClientTimeout = 0x2540BE400, HTTPClient = 0\<rparr>])"
proof -
  have settings:
    "BasicAuthUsername (example_settings 0x2540BE400) = []"
    "BasicAuthPassword (example_settings 0x2540BE400) = []"
    "URL (example_settings 0x2540BE400) = ''http://mimir:9009/api/v1/push''"
    "Timeout (example_settings 0x2540BE400) = 0x2540BE400"
    "BasicAuthUsername (auth_settings [] ''http://mimir:9009/api/v1/push'') = ''grafana''"
    "BasicAuthPassword (auth_settings [] ''http://mimir:9009/api/v1/push'') = []"
    by (simp_all add: example_settings_def auth_settings_def)
  have platform:
    "url_Parse example_platform ''http://mimir:9009/api/v1/push'' = None"
    "\<And>opts. GetTransport example_platform opts = Inr 0"
    "\<And>cfg. NewClient example_platform cfg = Inr (example_client None)"
    "custom_headers example_platform (example_settings 0x2540BE400)
       = [(''X-Scope-OrgID'', [''1''])]"
    by (simp_all add: custom_headers_def example_platform_def example_settings_def)
  show ?thesis
    using NewPrometheusWriter_basic_auth
        [of "auth_settings [] ''http://mimir:9009/api/v1/push''" example_platform]
      NewPrometheusWriter_basic_auth
        [of "example_settings 0x2540BE400" example_platform 0 "example_client None"]
    by (simp add: settings platform createAuthOpts_def)
qed

theorem NewPrometheusWriter_basic_auth_counterexample:
  "BasicAuthUsername (example_settings 0) = [] \<and>
   BasicAuthPassword (example_settings 0) = [] \<and>
   NewPrometheusWriter example_platform (example_settings 0)
     = (Inl (Errorf ''timeout must be greater than 0''), [])"
  by (simp add: example_settings_def example_platform_def NewPrometheusWriter_def
      validateSettings_def)

end
